theory Spec2Isabelle
  imports Main "HOL-Library.AList"
begin

section \<open>Configuration (app.py, lines 10-16)\<close>

text \<open>
  The module constants of \<^verbatim>\<open>app.py\<close>: the bounded-subset switch and its count.
  The two paths \<^verbatim>\<open>SPEECHES_FILE\<close> and \<^verbatim>\<open>ANNOTATIONS_FILE\<close> are fixed, so the content of each
  file is passed to the functions below as an argument and, where a function writes, the
  new content is returned.
\<close>

definition TEST_MODE :: bool where
  "TEST_MODE = True"

definition TEST_SPEECHES_COUNT :: int where
  "TEST_SPEECHES_COUNT = 3"

section \<open>Speech source: \<^verbatim>\<open>load_speeches\<close> (app.py, lines 21-41)\<close>

text \<open>
  What \<^verbatim>\<open>open\<close> and \<^verbatim>\<open>json.load\<close> can find at \<^verbatim>\<open>SPEECHES_FILE\<close>: no file, a file that is not
  JSON, or a JSON document; of a document only the value under the key \<^verbatim>\<open>'speeches'\<close> is
  used (\<open>None\<close> when the document has no such key). The items are kept polymorphic:
  \<^verbatim>\<open>load_speeches\<close> never looks inside one.
\<close>

datatype 'a speeches_file = FileMissing | NotJson | JsonDoc "'a list option"

text \<open>
  The two handled exceptions end the run with \<^verbatim>\<open>st.stop()\<close> after an error message; a
  missing \<^verbatim>\<open>'speeches'\<close> key is a \<^verbatim>\<open>KeyError\<close> that no handler catches.
\<close>

datatype load_error = Stop_FileNotFound | Stop_JSONDecodeError | Raise_KeyError

text \<open>Python's slice \<^verbatim>\<open>xs[:n]\<close> for an integer \<open>n\<close>; a negative \<open>n\<close> counts from the end.\<close>

definition py_slice_to :: "int \<Rightarrow> 'a list \<Rightarrow> 'a list" where
  "py_slice_to n xs =
     (if 0 \<le> n then take (nat n) xs else take (nat (int (length xs) + n)) xs)"

text \<open>The body of \<^verbatim>\<open>load_speeches\<close>, with the two module constants it reads as arguments.\<close>

definition load_speeches_with :: "bool \<Rightarrow> int \<Rightarrow> 'a speeches_file \<Rightarrow> load_error + 'a list" where
  "load_speeches_with test_mode test_count f =
     (case f of
        FileMissing \<Rightarrow> Inl Stop_FileNotFound
      | NotJson \<Rightarrow> Inl Stop_JSONDecodeError
      | JsonDoc None \<Rightarrow> Inl Raise_KeyError
      | JsonDoc (Some speeches) \<Rightarrow>
          Inr (if test_mode then py_slice_to test_count speeches else speeches))"

definition load_speeches :: "'a speeches_file \<Rightarrow> load_error + 'a list" where
  "load_speeches f = load_speeches_with TEST_MODE TEST_SPEECHES_COUNT f"

section \<open>Annotation store: the file and how pandas reads it\<close>

text \<open>
  \<^verbatim>\<open>annotations.csv\<close> is text. A row of the file has the six fields the code writes, each
  a string (the column \<^verbatim>\<open>context\<close> is named \<open>context_col\<close> here). The content of
  \<^verbatim>\<open>ANNOTATIONS_FILE\<close> is: no file, a file that \<^verbatim>\<open>pd.read_csv\<close> or the column lookups reject
  (an empty file, a malformed one, one without the six columns), or a table of rows in
  file order. Quoting is taken to return each field as it was written.
\<close>

record annotation_row =
  item_id :: string
  rater_id :: string
  score :: string
  justification :: string
  context_col :: string
  statement :: string

datatype csv_file = NoFile | Unreadable | Table "annotation_row list"

datatype exn = FileNotFoundError | CsvReadError | ValueError | TypeError

text \<open>
  A call returns, raises, or meets a value that this development does not describe
  (\<open>Beyond\<close>): a floating-point number, a Boolean, an integer outside 64 bits, or a token
  whose reading differs between pandas versions.
\<close>

datatype 'a outcome = Ok 'a | Raise exn | Beyond

definition file_exists :: "csv_file \<Rightarrow> bool" where
  "file_exists f = (f \<noteq> NoFile)"

subsection \<open>Tokens\<close>

text \<open>The white space and the digits of the C tokenizer of pandas (ASCII only).\<close>

definition c_space :: "char \<Rightarrow> bool" where
  "c_space ch = (let n = (of_char ch :: nat) in n = 32 \<or> (9 \<le> n \<and> n \<le> 13))"

definition is_digit :: "char \<Rightarrow> bool" where
  "is_digit ch = (let n = (of_char ch :: nat) in 48 \<le> n \<and> n \<le> 57)"

definition digits_val :: "string \<Rightarrow> nat" where
  "digits_val ds = foldl (\<lambda>n ch. 10 * n + (of_char ch - 48)) 0 ds"

text \<open>
  A token made of an optional minus sign and one or more digits, with a value that fits,
  is read as a 64-bit integer (leading zeros are dropped: \<^verbatim>\<open>007\<close> is 7). Tokens with a
  plus sign or with white space around the digits are left to the undecided ones below.
\<close>

definition parse_int :: "string \<Rightarrow> int option" where
  "parse_int t =
     (let neg = (t \<noteq> [] \<and> hd t = CHR ''-'');
          ds = (if neg then tl t else t);
          m = (if neg then - int (digits_val ds) else int (digits_val ds))
      in if ds = [] \<or> \<not> list_all is_digit ds then None
         else if - (2 ^ 63) \<le> m \<and> m < 2 ^ 63 then Some m else None)"

text \<open>The decimal text of an integer, as \<^verbatim>\<open>to_csv\<close> and \<^verbatim>\<open>str\<close> give it.\<close>

definition digit_char :: "nat \<Rightarrow> char" where
  "digit_char d =
     (if d = 0 then CHR ''0'' else if d = 1 then CHR ''1'' else if d = 2 then CHR ''2''
      else if d = 3 then CHR ''3'' else if d = 4 then CHR ''4'' else if d = 5 then CHR ''5''
      else if d = 6 then CHR ''6'' else if d = 7 then CHR ''7'' else if d = 8 then CHR ''8''
      else CHR ''9'')"

function show_nat :: "nat \<Rightarrow> string" where
  "show_nat n = (if n < 10 then [digit_char n]
                 else show_nat (n div 10) @ [digit_char (n mod 10)])"
  by pat_completeness auto
termination
  by (relation "measure id") auto

declare show_nat.simps [simp del]

definition show_int :: "int \<Rightarrow> string" where
  "show_int i = (if i < 0 then CHR ''-'' # show_nat (nat (- i)) else show_nat (nat i))"

text \<open>
  The tokens that \<^verbatim>\<open>pd.read_csv\<close> reads as a missing value by default. \<^verbatim>\<open>None\<close> joined that
  list with pandas 2.0 and is kept apart.
\<close>

definition na_values :: "string list" where
  "na_values = ['''', ''#N/A'', ''#N/A N/A'', ''#NA'', ''-1.#IND'', ''-1.#QNAN'', ''-NaN'',
     ''-nan'', ''1.#IND'', ''1.#QNAN'', ''<NA>'', ''N/A'', ''NA'', ''NULL'', ''NaN'', ''n/a'',
     ''nan'', ''null'']"

definition is_na :: "string \<Rightarrow> bool" where
  "is_na t = (t \<in> set na_values)"

definition bool_words :: "string list" where
  "bool_words = [''True'', ''TRUE'', ''true'', ''False'', ''FALSE'', ''false'']"

text \<open>
  \<open>plain_text t\<close>: the token \<open>t\<close> is read as the string \<open>t\<close> whatever else its column
  holds. It is not a missing-value token, not \<^verbatim>\<open>None\<close>, not a Boolean word, it has a
  character that no number has (numbers are made of white space, signs, digits, the point
  and \<^verbatim>\<open>e\<close>/\<^verbatim>\<open>E\<close>), and without its white space and signs it is not one of the words
  \<^verbatim>\<open>inf\<close>, \<^verbatim>\<open>infinity\<close>, \<^verbatim>\<open>nan\<close> in any case. The test is on the safe side: a token
  that fails it may still be read as a string.
\<close>

definition number_char :: "char \<Rightarrow> bool" where
  "number_char ch = (c_space ch \<or> is_digit ch \<or> ch \<in> set ''+-.eE'')"

definition lower :: "char \<Rightarrow> char" where
  "lower ch = (let n = (of_char ch :: nat) in if 65 \<le> n \<and> n \<le> 90 then char_of (n + 32) else ch)"

definition plain_text :: "string \<Rightarrow> bool" where
  "plain_text t =
     (\<not> is_na t \<and> t \<noteq> ''None'' \<and> t \<notin> set bool_words \<and>
      list_ex (\<lambda>ch. \<not> number_char ch) t \<and>
      map lower (filter (\<lambda>ch. \<not> c_space ch \<and> ch \<noteq> CHR ''+'' \<and> ch \<noteq> CHR ''-'') t)
        \<notin> set [''inf'', ''infinity'', ''nan''])"

subsection \<open>Columns and cells\<close>

text \<open>
  \<^verbatim>\<open>pd.read_csv\<close> decides the type of a column from all its tokens. A cell of the frame is
  an integer, a string, the missing value, or a value outside this development, kept
  with its token.
\<close>

datatype cell = I int | S string | NaN | Opaque string

datatype dtype = Int64 | Float64 | Object | Unknown

text \<open>
  The file is taken to be read in one piece. A column without rows is an object column. A
  column whose tokens are all missing-value tokens is a float column of missing values; a column whose tokens are all integers is an integer column; a column
  with a token that can only be a string (and no \<^verbatim>\<open>None\<close>) is an object column, in
  which the missing-value tokens are missing values and every other token is its own
  string. Any other column holds floating-point numbers or Booleans, or is an
  object column that the test above does not recognise: its type is \<open>Unknown\<close>.
\<close>

definition column_dtype :: "string list \<Rightarrow> dtype" where
  "column_dtype ts =
     (if ts = [] then Object
      else if list_all is_na ts then Float64
      else if list_all (\<lambda>t. parse_int t \<noteq> None) ts then Int64
      else if list_ex plain_text ts \<and> ''None'' \<notin> set ts then Object
      else Unknown)"

definition read_cell :: "dtype \<Rightarrow> string \<Rightarrow> cell" where
  "read_cell d t =
     (case d of
        Float64 \<Rightarrow> NaN
      | Int64 \<Rightarrow> (case parse_int t of Some n \<Rightarrow> I n | None \<Rightarrow> Opaque t)
      | Object \<Rightarrow> (if is_na t then NaN else S t)
      | Unknown \<Rightarrow> Opaque t)"

text \<open>A row of the data frame, and the frame with the types of its columns.\<close>

record frame_row =
  c_item_id :: cell
  c_rater_id :: cell
  c_score :: cell
  c_justification :: cell
  c_context :: cell
  c_statement :: cell

record frame =
  rows :: "frame_row list"
  score_dtype :: dtype
  justification_dtype :: dtype
  context_dtype :: dtype
  statement_dtype :: dtype

definition read_table :: "annotation_row list \<Rightarrow> frame" where
  "read_table rs =
     (let d1 = column_dtype (map item_id rs); d2 = column_dtype (map rater_id rs);
          d3 = column_dtype (map score rs); d4 = column_dtype (map justification rs);
          d5 = column_dtype (map context_col rs); d6 = column_dtype (map statement rs)
      in \<lparr>rows = map (\<lambda>r. \<lparr>c_item_id = read_cell d1 (item_id r),
                             c_rater_id = read_cell d2 (rater_id r),
                             c_score = read_cell d3 (score r),
                             c_justification = read_cell d4 (justification r),
                             c_context = read_cell d5 (context_col r),
                             c_statement = read_cell d6 (statement r)\<rparr>) rs,
          score_dtype = d3, justification_dtype = d4, context_dtype = d5,
          statement_dtype = d6\<rparr>)"

fun read_csv :: "csv_file \<Rightarrow> frame outcome" where
  "read_csv NoFile = Raise FileNotFoundError"
| "read_csv Unreadable = Raise CsvReadError"
| "read_csv (Table rs) = Ok (read_table rs)"

text \<open>
  \<^verbatim>\<open>df[col] == key\<close> at one cell, for a key that is a Python string: true for the same
  string, false for an integer and for the missing value. A cell outside the development
  differs from the key when its token does; otherwise the answer is not decided here.
\<close>

fun cell_eq_str :: "cell \<Rightarrow> string \<Rightarrow> bool outcome" where
  "cell_eq_str (S t) key = Ok (t = key)"
| "cell_eq_str (I n) key = Ok False"
| "cell_eq_str NaN key = Ok False"
| "cell_eq_str (Opaque t) key = (if t = key then Beyond else Ok False)"

text \<open>The conjunction of the two comparisons of the \<^verbatim>\<open>mask\<close>, at one row.\<close>

definition mask_at :: "string \<Rightarrow> string \<Rightarrow> frame_row \<Rightarrow> bool outcome" where
  "mask_at item rater r =
     (let a = cell_eq_str (c_item_id r) item; b = cell_eq_str (c_rater_id r) rater
      in if a = Ok False \<or> b = Ok False then Ok False
         else if a = Ok True \<and> b = Ok True then Ok True
         else Beyond)"

text \<open>
  A Boolean series over the rows is decided when it is at every row; the rows it selects
  are those where it is true.
\<close>

definition decided :: "(frame_row \<Rightarrow> bool outcome) \<Rightarrow> frame_row list \<Rightarrow> bool" where
  "decided p rs = list_all (\<lambda>r. p r = Ok True \<or> p r = Ok False) rs"

definition selected :: "(frame_row \<Rightarrow> bool outcome) \<Rightarrow> frame_row list \<Rightarrow> frame_row list" where
  "selected p rs = filter (\<lambda>r. p r = Ok True) rs"

text \<open>
  \<^verbatim>\<open>int(x)\<close> and \<^verbatim>\<open>str(x)\<close> of a cell. \<^verbatim>\<open>int\<close> of the missing value raises; \<^verbatim>\<open>int\<close> of a
  string returns for a sign and digits, raises when the string has a character that no
  integer literal has, and is left undecided otherwise.
\<close>

definition int_literal_char :: "char \<Rightarrow> bool" where
  "int_literal_char ch =
     (let n = (of_char ch :: nat)
      in is_digit ch \<or> ch \<in> set ''+-_'' \<or> n \<le> 32 \<or> 127 \<le> n)"

fun py_int :: "cell \<Rightarrow> int outcome" where
  "py_int (I n) = Ok n"
| "py_int NaN = Raise ValueError"
| "py_int (Opaque t) = Beyond"
| "py_int (S t) =
     (if list_ex (\<lambda>ch. \<not> int_literal_char ch) t then Raise ValueError
      else if t \<noteq> [] \<and> list_all is_digit (if hd t \<in> set ''+-'' then tl t else t)
              \<and> (if hd t \<in> set ''+-'' then tl t else t) \<noteq> []
           then Ok ((if hd t = CHR ''-'' then - 1 else 1)
                    * int (digits_val (if hd t \<in> set ''+-'' then tl t else t)))
      else Beyond)"

fun py_str :: "cell \<Rightarrow> string outcome" where
  "py_str (S t) = Ok t"
| "py_str (I n) = Ok (show_int n)"
| "py_str NaN = Ok ''nan''"
| "py_str (Opaque t) = Beyond"

text \<open>\<^verbatim>\<open>to_csv\<close> writes a missing value as the empty field.\<close>

fun write_cell :: "cell \<Rightarrow> string option" where
  "write_cell (S t) = Some t"
| "write_cell (I n) = Some (show_int n)"
| "write_cell NaN = Some []"
| "write_cell (Opaque t) = None"

definition write_row :: "frame_row \<Rightarrow> annotation_row option" where
  "write_row r =
     (case (write_cell (c_item_id r), write_cell (c_rater_id r), write_cell (c_score r),
            write_cell (c_justification r), write_cell (c_context r), write_cell (c_statement r)) of
        (Some a, Some b, Some c, Some d, Some e, Some g) \<Rightarrow>
          Some \<lparr>item_id = a, rater_id = b, score = c, justification = d,
                context_col = e, statement = g\<rparr>
      | _ \<Rightarrow> None)"

definition to_csv :: "frame_row list \<Rightarrow> csv_file outcome" where
  "to_csv rs =
     (if list_all (\<lambda>r. write_row r \<noteq> None) rs
      then Ok (Table (map (\<lambda>r. the (write_row r)) rs)) else Beyond)"

section \<open>Annotation store: the three functions (app.py, lines 43-125)\<close>

text \<open>The messages the functions put on the page.\<close>

datatype notice =
    Error_reading_annotations exn
  | Error_provide_justification
  | Success_annotation_saved

text \<open>The dictionary that \<^verbatim>\<open>get_annotation\<close> returns.\<close>

record annotation =
  ann_score :: int
  ann_justification :: string

text \<open>
  \<^verbatim>\<open>get_annotation\<close>: \<^verbatim>\<open>None\<close> without a file; otherwise the first row the mask selects,
  with \<^verbatim>\<open>int\<close> of its score and \<^verbatim>\<open>str\<close> of its justification. Every exception inside
  \<^verbatim>\<open>try\<close> is shown as an error and \<^verbatim>\<open>None\<close> is returned. The result is paired with the
  messages shown.
\<close>

definition get_annotation ::
    "string \<Rightarrow> string \<Rightarrow> csv_file \<Rightarrow> (annotation option \<times> notice list) outcome" where
  "get_annotation item rater f =
     (if \<not> file_exists f then Ok (None, [])
      else case read_csv f of
             Raise e \<Rightarrow> Ok (None, [Error_reading_annotations e])
           | Beyond \<Rightarrow> Beyond
           | Ok df \<Rightarrow>
               (if \<not> decided (mask_at item rater) (rows df) then Beyond
                else (case selected (mask_at item rater) (rows df) of
                        [] \<Rightarrow> Ok (None, [])
                      | row # _ \<Rightarrow>
                          (case py_int (c_score row) of
                             Raise e \<Rightarrow> Ok (None, [Error_reading_annotations e])
                           | Beyond \<Rightarrow> Beyond
                           | Ok n \<Rightarrow>
                               (case py_str (c_justification row) of
                                  Raise e \<Rightarrow> Ok (None, [Error_reading_annotations e])
                                | Beyond \<Rightarrow> Beyond
                                | Ok j \<Rightarrow>
                                    Ok (Some \<lparr>ann_score = n, ann_justification = j\<rparr>, []))))))"

text \<open>
  The dictionary of \<^verbatim>\<open>get_annotations_for_rater\<close> is indexed by the item cell and keeps the
  justification cell as it is. It is an association list with distinct keys in insertion
  order; a later row with a key already present replaces the value. A key that is a
  missing value or a value outside the development is not decided here.
\<close>

record rater_annotation =
  ra_score :: int
  ra_justification :: cell

fun fill ::
    "(cell \<times> rater_annotation) list \<Rightarrow> frame_row list \<Rightarrow> (cell \<times> rater_annotation) list outcome" where
  "fill annotations [] = Ok annotations"
| "fill annotations (row # rest) =
     (case py_int (c_score row) of
        Raise e \<Rightarrow> Raise e
      | Beyond \<Rightarrow> Beyond
      | Ok n \<Rightarrow>
          (case c_item_id row of
             NaN \<Rightarrow> Beyond
           | Opaque t \<Rightarrow> Beyond
           | k \<Rightarrow> fill (AList.update k \<lparr>ra_score = n, ra_justification = c_justification row\<rparr>
                          annotations) rest))"

definition get_annotations_for_rater ::
    "string \<Rightarrow> csv_file \<Rightarrow> ((cell \<times> rater_annotation) list \<times> notice list) outcome" where
  "get_annotations_for_rater rater f =
     (if \<not> file_exists f then Ok ([], [])
      else case read_csv f of
             Raise e \<Rightarrow> Ok ([], [Error_reading_annotations e])
           | Beyond \<Rightarrow> Beyond
           | Ok df \<Rightarrow>
               (if \<not> decided (\<lambda>r. cell_eq_str (c_rater_id r) rater) (rows df) then Beyond
                else (case fill [] (selected (\<lambda>r. cell_eq_str (c_rater_id r) rater) (rows df)) of
                        Raise e \<Rightarrow> Ok ([], [Error_reading_annotations e])
                      | Beyond \<Rightarrow> Beyond
                      | Ok annotations \<Rightarrow> Ok (annotations, []))))"

text \<open>
  Assignment through \<^verbatim>\<open>df.loc[mask, col] = value\<close>. An integer goes into an integer
  column, and before pandas 3 into an object column; from pandas 3 on (\<open>strict\<close>) a column
  of strings has a string type of its own and the case is left undecided. A string goes
  into a column of strings; into an integer column or a float column of missing values it
  raises \<^verbatim>\<open>TypeError\<close> from pandas 3 on, and before that the column becomes an object
  column.
\<close>

fun assign_int :: "bool \<Rightarrow> dtype \<Rightarrow> unit outcome" where
  "assign_int strict Int64 = Ok ()"
| "assign_int strict Object = (if strict then Beyond else Ok ())"
| "assign_int strict Float64 = Beyond"
| "assign_int strict Unknown = Beyond"

fun assign_str :: "bool \<Rightarrow> dtype \<Rightarrow> unit outcome" where
  "assign_str strict Object = Ok ()"
| "assign_str strict Unknown = Beyond"
| "assign_str strict d = (if strict then Raise TypeError else Ok ())"

text \<open>
  \<^verbatim>\<open>update_annotation\<close>. Without a file the one row is written from the Python values. With
  a file, \<^verbatim>\<open>pd.read_csv\<close> is not guarded, so its exception leaves the function. The four
  assignments change every row the mask selects, in the order score, justification,
  context, statement; \<^verbatim>\<open>pd.concat\<close> puts the new row last. The frame is written back
  whole, each cell as the frame holds it. \<open>strict\<close> says whether pandas is version 3 or
  later.
\<close>

definition update_annotation ::
    "bool \<Rightarrow> string \<Rightarrow> string \<Rightarrow> int \<Rightarrow> string \<Rightarrow> string \<Rightarrow> string \<Rightarrow> csv_file
       \<Rightarrow> csv_file outcome" where
  "update_annotation strict item rater sc j c s f =
     (if \<not> file_exists f
      then Ok (Table [\<lparr>item_id = item, rater_id = rater, score = show_int sc,
                        justification = j, context_col = c, statement = s\<rparr>])
      else case read_csv f of
             Raise e \<Rightarrow> Raise e
           | Beyond \<Rightarrow> Beyond
           | Ok df \<Rightarrow>
              (if \<not> decided (mask_at item rater) (rows df) then Beyond
               else if selected (mask_at item rater) (rows df) \<noteq> [] then
                 (case assign_int strict (score_dtype df) of
                    Raise e \<Rightarrow> Raise e | Beyond \<Rightarrow> Beyond
                  | Ok _ \<Rightarrow>
                 (case assign_str strict (justification_dtype df) of
                    Raise e \<Rightarrow> Raise e | Beyond \<Rightarrow> Beyond
                  | Ok _ \<Rightarrow>
                 (case assign_str strict (context_dtype df) of
                    Raise e \<Rightarrow> Raise e | Beyond \<Rightarrow> Beyond
                  | Ok _ \<Rightarrow>
                 (case assign_str strict (statement_dtype df) of
                    Raise e \<Rightarrow> Raise e | Beyond \<Rightarrow> Beyond
                  | Ok _ \<Rightarrow>
                      to_csv (map (\<lambda>r. if mask_at item rater r = Ok True
                                        then r\<lparr>c_score := I sc, c_justification := S j,
                                               c_context := S c, c_statement := S s\<rparr>
                                        else r) (rows df))))))
               else if score_dtype df = Float64 then Beyond
               else to_csv (rows df @ [\<lparr>c_item_id = S item, c_rater_id = S rater,
                                         c_score = I sc, c_justification = S j,
                                         c_context = S c, c_statement = S s\<rparr>])))"

text \<open>
  A sequence of calls of \<^verbatim>\<open>update_annotation\<close>, each given by its six arguments, run one
  after the other on the file; the first call that does not return ends the sequence.
\<close>

type_synonym call = "string \<times> string \<times> int \<times> string \<times> string \<times> string"

fun run_upserts :: "bool \<Rightarrow> csv_file \<Rightarrow> call list \<Rightarrow> csv_file outcome" where
  "run_upserts strict f [] = Ok f"
| "run_upserts strict f ((item, rater, sc, j, c, s) # calls) =
     (case update_annotation strict item rater sc j c s f of
        Ok f' \<Rightarrow> run_upserts strict f' calls
      | Raise e \<Rightarrow> Raise e
      | Beyond \<Rightarrow> Beyond)"

section \<open>Session state and the annotation form of \<^verbatim>\<open>main\<close> (app.py, lines 426-471)\<close>

text \<open>
  An item of the speech source, with the keys \<^verbatim>\<open>main\<close> reads; \<^verbatim>\<open>text\<close> and \<^verbatim>\<open>context\<close> are
  named \<open>speech_text\<close> and \<open>speech_context\<close>.
\<close>

record speech =
  speech_id :: string
  topic :: string
  speaker :: string
  speech_text :: string
  speech_context :: "string list"

text \<open>\<^verbatim>\<open>st.session_state\<close>: the three keys \<^verbatim>\<open>main\<close> initialises.\<close>

record session_state =
  show_intro :: bool
  current_idx :: int
  session_rater_id :: string

text \<open>
  \<^verbatim>\<open>str.strip()\<close> removes the leading and trailing characters for which \<^verbatim>\<open>str.isspace()\<close>
  holds. A \<open>char\<close> stands for a code point below 256, where these are the code points
  9 to 13, 28 to 32, 133 and 160.
\<close>

definition is_space :: "char \<Rightarrow> bool" where
  "is_space ch =
     (let n = (of_char ch :: nat)
      in (9 \<le> n \<and> n \<le> 13) \<or> (28 \<le> n \<and> n \<le> 32) \<or> n = 133 \<or> n = 160)"

definition strip :: "string \<Rightarrow> string" where
  "strip s = rev (dropWhile is_space (rev (dropWhile is_space s)))"

text \<open>\<^verbatim>\<open>sep.join(xs)\<close>.\<close>

fun join :: "string \<Rightarrow> string list \<Rightarrow> string" where
  "join sep [] = []"
| "join sep [x] = x"
| "join sep (x # y # ys) = x @ sep @ join sep (y # ys)"

text \<open>
  What one run of the form block leaves: the session state, the store file, the messages
  shown and whether \<^verbatim>\<open>st.rerun()\<close> was called.
\<close>

record page =
  session :: session_state
  store :: csv_file
  shown :: "notice list"
  rerun :: bool

text \<open>
  The block under \<^verbatim>\<open>with st.form(...)\<close> after the widgets: \<open>current_speech\<close>, \<open>idx\<close>
  (the local \<^verbatim>\<open>current_idx\<close>), \<open>total_speeches\<close> and \<open>rater\<close> are the locals of \<^verbatim>\<open>main\<close>,
  \<open>sc\<close> and \<open>j\<close> the values of the slider and of the text area, \<open>submitted\<close> the
  value of the submit button. An exception of \<^verbatim>\<open>update_annotation\<close> is not caught.
\<close>

definition form_block ::
    "bool \<Rightarrow> speech \<Rightarrow> int \<Rightarrow> int \<Rightarrow> string \<Rightarrow> int \<Rightarrow> string \<Rightarrow> bool \<Rightarrow> session_state
       \<Rightarrow> csv_file \<Rightarrow> page outcome" where
  "form_block strict current_speech idx total_speeches rater sc j submitted ss f =
     (if submitted then
        if strip j = [] then
          Ok \<lparr>session = ss, store = f, shown = [Error_provide_justification], rerun = False\<rparr>
        else
          (let context_str = (if speech_context current_speech \<noteq> []
                              then join '' | '' (speech_context current_speech) else [])
           in case update_annotation strict (speech_id current_speech) rater sc (strip j)
                     context_str (speech_text current_speech) f of
                Raise e \<Rightarrow> Raise e
              | Beyond \<Rightarrow> Beyond
              | Ok f' \<Rightarrow>
                  Ok \<lparr>session = (if idx < total_speeches - 1
                                 then ss\<lparr>current_idx := current_idx ss + 1\<rparr> else ss),
                      store = f', shown = [Success_annotation_saved], rerun = True\<rparr>)
      else Ok \<lparr>session = ss, store = f, shown = [], rerun = False\<rparr>)"

section \<open>Notions for the statements\<close>

text \<open>A row of the file has the key (item, rater) when its two fields are these strings.\<close>

definition key_mask :: "string \<Rightarrow> string \<Rightarrow> annotation_row \<Rightarrow> bool" where
  "key_mask item rater row = (item_id row = item \<and> rater_id row = rater)"





text \<open>
  The table a call for a key leaves when fields come back as written: every row of the key
  has its four other fields replaced, or the new row is added last.
\<close>

definition overwrite :: "string \<Rightarrow> string \<Rightarrow> string \<Rightarrow> string \<Rightarrow> annotation_row \<Rightarrow> annotation_row" where
  "overwrite sc j c s row =
     row\<lparr>score := sc, justification := j, context_col := c, statement := s\<rparr>"

definition upserted ::
    "string \<Rightarrow> string \<Rightarrow> string \<Rightarrow> string \<Rightarrow> string \<Rightarrow> string \<Rightarrow> annotation_row list
       \<Rightarrow> annotation_row list" where
  "upserted i r sc j c s df =
     (if list_ex (key_mask i r) df
      then map (\<lambda>row. if key_mask i r row then overwrite sc j c s row else row) df
      else df @ [\<lparr>item_id = i, rater_id = r, score = sc, justification = j,
                  context_col = c, statement = s\<rparr>])"


section \<open>Facts about reading and looking up\<close>

lemma cell_eq_str_other: "t \<noteq> key \<Longrightarrow> cell_eq_str (read_cell d t) key = Ok False"
  by (cases d) (auto simp: read_cell_def split: option.splits)

lemma cell_eq_str_True: "cell_eq_str (read_cell d t) key = Ok True \<Longrightarrow> t = key"
  using cell_eq_str_other [of t key d] by auto

lemma rows_read_table:
  "rows (read_table rs) =
     map (\<lambda>r. \<lparr>c_item_id = read_cell (column_dtype (map item_id rs)) (item_id r),
                c_rater_id = read_cell (column_dtype (map rater_id rs)) (rater_id r),
                c_score = read_cell (column_dtype (map score rs)) (score r),
                c_justification = read_cell (column_dtype (map justification rs)) (justification r),
                c_context = read_cell (column_dtype (map context_col rs)) (context_col r),
                c_statement = read_cell (column_dtype (map statement rs)) (statement r)\<rparr>) rs"
  by (simp add: read_table_def Let_def)

lemma mask_at_absent:
  "\<not> key_mask item rater r \<Longrightarrow>
     mask_at item rater \<lparr>c_item_id = read_cell d1 (item_id r), c_rater_id = read_cell d2 (rater_id r),
        c_score = x3, c_justification = x4, c_context = x5, c_statement = x6\<rparr> = Ok False"
  by (auto simp: mask_at_def key_mask_def Let_def cell_eq_str_other)

lemma get_annotation_absent:
  assumes "\<not> list_ex (key_mask item rater) rs"
  shows "get_annotation item rater (Table rs) = Ok (None, [])"
proof -
  have all: "\<forall>row \<in> set (rows (read_table rs)). mask_at item rater row = Ok False"
    using assms by (auto simp: rows_read_table list_ex_iff mask_at_absent)
  then have "decided (mask_at item rater) (rows (read_table rs))"
    by (simp add: decided_def list_all_iff)
  moreover from all have "selected (mask_at item rater) (rows (read_table rs)) = []"
    by (simp add: selected_def filter_empty_conv)
  ultimately show ?thesis
    by (simp add: get_annotation_def file_exists_def)
qed

lemma fill_keys:
  "fill d rws = Ok d' \<Longrightarrow> fst ` set d' \<subseteq> fst ` set d \<union> c_item_id ` set rws"
proof (induction rws arbitrary: d)
  case Nil
  then show ?case by simp
next
  case (Cons row rest)
  from Cons.prems obtain n where n: "py_int (c_score row) = Ok n"
    by (auto split: outcome.splits)
  let ?d = "AList.update (c_item_id row)
              \<lparr>ra_score = n, ra_justification = c_justification row\<rparr> d"
  from Cons.prems n have "fill ?d rest = Ok d'"
    by (auto split: cell.splits)
  from Cons.IH [OF this] have "fst ` set d' \<subseteq> fst ` set ?d \<union> c_item_id ` set rest" .
  moreover have "fst ` set ?d \<subseteq> insert (c_item_id row) (fst ` set d)"
    using dom_update [of "c_item_id row" _ d] by (auto simp: dom_map_of_conv_image_fst)
  ultimately show ?case by auto
qed

lemma bulk_no_rater:
  assumes "\<not> list_ex (\<lambda>row. rater_id row = rater) rs"
  shows "get_annotations_for_rater rater (Table rs) = Ok ([], [])"
proof -
  have all: "\<forall>row \<in> set (rows (read_table rs)). cell_eq_str (c_rater_id row) rater = Ok False"
    using assms by (auto simp: rows_read_table list_ex_iff cell_eq_str_other)
  then have "decided (\<lambda>r. cell_eq_str (c_rater_id r) rater) (rows (read_table rs))"
    by (simp add: decided_def list_all_iff)
  moreover from all have "selected (\<lambda>r. cell_eq_str (c_rater_id r) rater) (rows (read_table rs)) = []"
    by (simp add: selected_def filter_empty_conv)
  ultimately show ?thesis
    by (simp add: get_annotations_for_rater_def file_exists_def)
qed

lemma bulk_no_entry:
  assumes no: "\<not> list_ex (key_mask item rater) rs"
    and res: "get_annotations_for_rater rater (Table rs) = Ok (d, ns)"
  shows "map_of d (S item) = None"
proof -
  let ?sel = "selected (\<lambda>r. cell_eq_str (c_rater_id r) rater) (rows (read_table rs))"
  from res have "fill [] ?sel = Ok d \<or> d = []"
    by (auto simp: get_annotations_for_rater_def file_exists_def split: if_splits outcome.splits)
  then have keys: "fst ` set d \<subseteq> c_item_id ` set ?sel"
    using fill_keys [of "[]" ?sel d] by auto
  have "S item \<notin> c_item_id ` set ?sel"
  proof
    assume "S item \<in> c_item_id ` set ?sel"
    then obtain row where row: "row \<in> set (rows (read_table rs))"
      "cell_eq_str (c_rater_id row) rater = Ok True" "c_item_id row = S item"
      by (auto simp: selected_def)
    from row(1) obtain r where r: "r \<in> set rs"
      "c_item_id row = read_cell (column_dtype (map item_id rs)) (item_id r)"
      "c_rater_id row = read_cell (column_dtype (map rater_id rs)) (rater_id r)"
      by (auto simp: rows_read_table)
    from row(2) r(3) have "rater_id r = rater" by (simp add: cell_eq_str_True)
    moreover from row(3) r(2) have "item_id r = item"
      by (cases "column_dtype (map item_id rs)")
        (auto simp: read_cell_def split: option.splits if_splits)
    ultimately have "key_mask item rater r" by (simp add: key_mask_def)
    with r(1) no show False by (auto simp: list_ex_iff)
  qed
  with keys have "S item \<notin> fst ` set d" by auto
  then show ?thesis by (simp add: map_of_eq_None_iff)
qed

lemma strip_whitespace_only: "\<forall>ch \<in> set j. is_space ch \<Longrightarrow> strip j = []"
proof -
  assume "\<forall>ch \<in> set j. is_space ch"
  then have "dropWhile is_space j = []" by simp
  then show ?thesis by (simp add: strip_def del: dropWhile_eq_Nil_conv)
qed

section \<open>Facts about clean tables\<close>




























section \<open>Facts about the table a call leaves\<close>

lemma mask_overwrite [simp]: "key_mask i r (overwrite sc j c s row) = key_mask i r row"
  by (simp add: key_mask_def overwrite_def)


lemma mask_new [simp]:
  "key_mask i r \<lparr>item_id = i, rater_id = r, score = sc, justification = j, context_col = c, statement = s\<rparr>"
  by (simp add: key_mask_def)





lemma length_upserted:
  "length (upserted i r sc j c s df) = (if list_ex (key_mask i r) df then length df else Suc (length df))"
  by (simp add: upserted_def)

lemma list_ex_map_overwrite:
  "list_ex (key_mask i r) (map (\<lambda>row. if key_mask i r row then overwrite sc j c s row else row) df)
     = list_ex (key_mask i r) df"
  by (induction df) auto

lemma list_ex_upserted: "list_ex (key_mask i r) (upserted i r sc j c s df)"
  by (simp add: upserted_def list_ex_map_overwrite)








lemma take_3_of_10:
  "length xs = 10 \<Longrightarrow> take 3 xs = [xs ! 0, xs ! 1, xs ! 2]"
proof -
  assume l: "length xs = 10"
  have "take (Suc (Suc (Suc 0))) xs = [xs ! 0, xs ! 1, xs ! 2]"
    using l by (simp add: take_Suc_conv_app_nth numeral_2_eq_2)
  then show ?thesis by (simp add: numeral_3_eq_3)
qed

section \<open>Properties of the annotation store\<close>




text \<open>
  C2 (key uniqueness). The code breaks the claim. From no file, two calls for the one pair
  (s1, 42) leave two rows: the first call writes the rater field \<^verbatim>\<open>42\<close>, the second reads the
  rater column back as integers, the comparison with the string \<^verbatim>\<open>"42"\<close> is false at every
  row, and the row is appended again.
\<close>

theorem numeric_rater_duplicate_rows:
  "run_upserts True NoFile
     [(''s1'', ''42'', 5, ''good'', ''ctx'', ''text''), (''s1'', ''42'', 5, ''good'', ''ctx'', ''text'')]
   = Ok (Table [\<lparr>item_id = ''s1'', rater_id = ''42'', score = ''5'', justification = ''good'',
         context_col = ''ctx'', statement = ''text''\<rparr>,
       \<lparr>item_id = ''s1'', rater_id = ''42'', score = ''5'', justification = ''good'',
         context_col = ''ctx'', statement = ''text''\<rparr>]) \<and>
   run_upserts False NoFile
     [(''s1'', ''42'', 5, ''good'', ''ctx'', ''text''), (''s1'', ''42'', 5, ''good'', ''ctx'', ''text'')]
   = Ok (Table [\<lparr>item_id = ''s1'', rater_id = ''42'', score = ''5'', justification = ''good'',
         context_col = ''ctx'', statement = ''text''\<rparr>,
       \<lparr>item_id = ''s1'', rater_id = ''42'', score = ''5'', justification = ''good'',
         context_col = ''ctx'', statement = ''text''\<rparr>])"
  by code_simp




text \<open>
  C4 (round trip). The code breaks the claim. From no file, \<^verbatim>\<open>update_annotation\<close> for the
  rater \<^verbatim>\<open>"42"\<close> writes the row, and \<^verbatim>\<open>get_annotation\<close> for the same item and rater on the
  file written returns \<^verbatim>\<open>None\<close>: the rater column is read back as integers and no cell
  equals the string.
\<close>

theorem numeric_rater_not_read_back:
  "update_annotation True ''s1'' ''42'' 4 ''good'' ''ctx'' ''text'' NoFile =
     Ok (Table [\<lparr>item_id = ''s1'', rater_id = ''42'', score = ''4'', justification = ''good'',
         context_col = ''ctx'', statement = ''text''\<rparr>]) \<and>
   update_annotation False ''s1'' ''42'' 4 ''good'' ''ctx'' ''text'' NoFile =
     Ok (Table [\<lparr>item_id = ''s1'', rater_id = ''42'', score = ''4'', justification = ''good'',
         context_col = ''ctx'', statement = ''text''\<rparr>]) \<and>
   get_annotation ''s1'' ''42'' (Table [\<lparr>item_id = ''s1'', rater_id = ''42'', score = ''4'', justification = ''good'',
         context_col = ''ctx'', statement = ''text''\<rparr>]) = Ok (None, [])"
  by code_simp




text \<open>
  C6 (absent is not an error). With no store file, \<^verbatim>\<open>get_annotation\<close> returns \<^verbatim>\<open>None\<close> and
  \<^verbatim>\<open>get_annotations_for_rater\<close> the empty dictionary, and no error is shown. With any table
  that has no row whose two key fields are the item and the rater, \<^verbatim>\<open>get_annotation\<close>
  returns \<^verbatim>\<open>None\<close> and shows no error, and whatever dictionary the bulk lookup returns has no
  entry for the item. The bulk lookup is keyed by the rater alone: with a table that has no
  row of the rater it returns the empty dictionary and shows no error.
\<close>

theorem absent_is_not_an_error:
  "get_annotation item rater NoFile = Ok (None, []) \<and>
   get_annotations_for_rater rater NoFile = Ok ([], []) \<and>
   (\<not> list_ex (key_mask item rater) df \<longrightarrow>
      get_annotation item rater (Table df) = Ok (None, []) \<and>
      (\<forall>d ns. get_annotations_for_rater rater (Table df) = Ok (d, ns) \<longrightarrow>
         map_of d (S item) = None)) \<and>
   (\<not> list_ex (\<lambda>row. rater_id row = rater) df \<longrightarrow>
      get_annotations_for_rater rater (Table df) = Ok ([], []))"
  by (auto simp: get_annotation_absent bulk_no_rater bulk_no_entry)
    (simp_all add: get_annotation_def get_annotations_for_rater_def file_exists_def)

theorem absent_is_not_an_error_witness:
  "\<not> list_ex (key_mask ''s2'' ''r2'')
       [\<lparr>item_id = ''s1'', rater_id = ''r1'', score = ''5'', justification = ''good'',
          context_col = ''c'', statement = ''s''\<rparr>] \<and>
   \<not> list_ex (\<lambda>row. rater_id row = ''r2'')
       [\<lparr>item_id = ''s1'', rater_id = ''r1'', score = ''5'', justification = ''good'',
          context_col = ''c'', statement = ''s''\<rparr>] \<and>
   get_annotation ''s2'' ''r2''
     (Table [\<lparr>item_id = ''s1'', rater_id = ''r1'', score = ''5'', justification = ''good'',
               context_col = ''c'', statement = ''s''\<rparr>]) = Ok (None, []) \<and>
   get_annotations_for_rater ''r2''
     (Table [\<lparr>item_id = ''s1'', rater_id = ''r1'', score = ''5'', justification = ''good'',
               context_col = ''c'', statement = ''s''\<rparr>]) = Ok ([], [])"
proof -
  have no_key: "\<not> list_ex (key_mask ''s2'' ''r2'')
       [\<lparr>item_id = ''s1'', rater_id = ''r1'', score = ''5'', justification = ''good'',
          context_col = ''c'', statement = ''s''\<rparr>]"
    by (simp add: key_mask_def)
  have no_rater: "\<not> list_ex (\<lambda>row. rater_id row = ''r2'')
       [\<lparr>item_id = ''s1'', rater_id = ''r1'', score = ''5'', justification = ''good'',
          context_col = ''c'', statement = ''s''\<rparr>]"
    by simp
  from absent_is_not_an_error [of "''s2''" "''r2''"
       "[\<lparr>item_id = ''s1'', rater_id = ''r1'', score = ''5'', justification = ''good'',
          context_col = ''c'', statement = ''s''\<rparr>]"] no_key no_rater
  show ?thesis by simp
qed







section \<open>Properties of the speech source\<close>

text \<open>
  C7 (bounded-subset mode). With the constants of \<^verbatim>\<open>app.py\<close> (\<^verbatim>\<open>TEST_MODE = True\<close>,
  \<^verbatim>\<open>TEST_SPEECHES_COUNT = 3\<close>), \<^verbatim>\<open>load_speeches\<close> on a document returns the first three
  items of its collection in their order; for a collection of ten these are the items at
  positions 0, 1 and 2. With the switch on and any count \<open>n\<close> that is not negative, the
  body returns the first \<open>n\<close> items.
\<close>

theorem load_speeches_bounded_subset:
  "load_speeches (JsonDoc (Some speeches)) = Inr (take 3 speeches) \<and>
   (length speeches = 10 \<longrightarrow>
      load_speeches (JsonDoc (Some speeches)) = Inr [speeches ! 0, speeches ! 1, speeches ! 2]) \<and>
   (0 \<le> n \<longrightarrow>
      load_speeches_with True n (JsonDoc (Some speeches)) = Inr (take (nat n) speeches))"
  by (simp add: load_speeches_def load_speeches_with_def TEST_MODE_def TEST_SPEECHES_COUNT_def
      py_slice_to_def take_3_of_10)

theorem load_speeches_bounded_subset_witness:
  "length [10, 11, 12, 13, 14, 15, 16, 17, 18, 19 :: nat] = 10 \<and> (0 :: int) \<le> 3 \<and>
   load_speeches (JsonDoc (Some [10, 11, 12, 13, 14, 15, 16, 17, 18, 19 :: nat]))
     = Inr [10, 11, 12] \<and>
   load_speeches_with True 3 (JsonDoc (Some [10, 11, 12, 13, 14, 15, 16, 17, 18, 19 :: nat]))
     = Inr [10, 11, 12]"
  using load_speeches_bounded_subset [of "[10, 11, 12, 13, 14, 15, 16, 17, 18, 19 :: nat]" 3]
  by simp

section \<open>Properties of the annotation form\<close>

text \<open>
  C9 (validation). For every session state and every store file, a submission whose
  justification is empty or consists of white space only shows the error message, calls
  neither \<^verbatim>\<open>update_annotation\<close> nor \<^verbatim>\<open>st.rerun()\<close>, and leaves the session state (cursor
  index included) and the store file as they were.
\<close>

theorem empty_justification_blocks_submission:
  "\<forall>ch \<in> set j. is_space ch \<Longrightarrow>
     form_block strict current_speech idx total_speeches rater sc j True ss f =
       Ok \<lparr>session = ss, store = f, shown = [Error_provide_justification], rerun = False\<rparr>"
  by (simp add: form_block_def strip_whitespace_only)

theorem empty_justification_blocks_submission_witness:
  "is_space (CHR '' '') \<and> is_space (CHR 0x09) \<and> is_space (CHR 0x0A) \<and>
   form_block True \<lparr>speech_id = ''s1'', topic = ''t'', speaker = ''p'', speech_text = ''x'',
               speech_context = [''c1'', ''c2'']\<rparr> 1 3 ''r1'' 4 [CHR '' '', CHR 0x09, CHR 0x0A] True
      \<lparr>show_intro = False, current_idx = 1, session_rater_id = ''r1''\<rparr>
      (Table [\<lparr>item_id = ''s1'', rater_id = ''r1'', score = ''5'', justification = ''good'',
                context_col = ''c'', statement = ''s''\<rparr>])
    = Ok \<lparr>session = \<lparr>show_intro = False, current_idx = 1, session_rater_id = ''r1''\<rparr>,
          store = Table [\<lparr>item_id = ''s1'', rater_id = ''r1'', score = ''5'',
                           justification = ''good'', context_col = ''c'', statement = ''s''\<rparr>],
          shown = [Error_provide_justification], rerun = False\<rparr>"
proof -
  have blank: "\<forall>ch \<in> set [CHR '' '', CHR 0x09, CHR 0x0A]. is_space ch"
    by (simp add: is_space_def)
  from empty_justification_blocks_submission [OF blank] blank
  show ?thesis by simp
qed

end
